theory Spec2Isabelle
  imports Complex_Main
begin

section \<open>JavaScript numbers\<close>

text \<open>
  The component computes with JavaScript numbers. A number is \<open>NaN\<close>, one of the two
  infinities, or a finite value. Finite values are modelled as exact reals: rounding to
  the nearest double, overflow of a finite result to an infinity and underflow to zero
  are not modelled, and the two zeros \<open>+0\<close> and \<open>-0\<close> (which \<open>===\<close>, \<open><\<close> and \<open>>\<close>
  do not tell apart) are one value \<open>Fin 0\<close>. The special values and the operators on them
  follow ECMAScript.
\<close>

datatype jsnum = NaN | PInf | NInf | Fin real

text \<open>\<open>a + b\<close>\<close>

fun js_add :: "jsnum \<Rightarrow> jsnum \<Rightarrow> jsnum" where
  "js_add NaN b = NaN"
| "js_add a NaN = NaN"
| "js_add PInf NInf = NaN"
| "js_add NInf PInf = NaN"
| "js_add PInf b = PInf"
| "js_add a PInf = PInf"
| "js_add NInf b = NInf"
| "js_add a NInf = NInf"
| "js_add (Fin a) (Fin b) = Fin (a + b)"

text \<open>\<open>a * b\<close>\<close>

fun js_mul :: "jsnum \<Rightarrow> jsnum \<Rightarrow> jsnum" where
  "js_mul NaN b = NaN"
| "js_mul a NaN = NaN"
| "js_mul PInf PInf = PInf"
| "js_mul PInf NInf = NInf"
| "js_mul NInf PInf = NInf"
| "js_mul NInf NInf = PInf"
| "js_mul PInf (Fin b) = (if b = 0 then NaN else if 0 < b then PInf else NInf)"
| "js_mul NInf (Fin b) = (if b = 0 then NaN else if 0 < b then NInf else PInf)"
| "js_mul (Fin a) PInf = (if a = 0 then NaN else if 0 < a then PInf else NInf)"
| "js_mul (Fin a) NInf = (if a = 0 then NaN else if 0 < a then NInf else PInf)"
| "js_mul (Fin a) (Fin b) = Fin (a * b)"

text \<open>\<open>a / b\<close>; a finite non-zero value divided by zero is an infinity, \<open>0 / 0\<close> and
  an infinity divided by an infinity are \<open>NaN\<close>.\<close>

fun js_div :: "jsnum \<Rightarrow> jsnum \<Rightarrow> jsnum" where
  "js_div NaN b = NaN"
| "js_div a NaN = NaN"
| "js_div PInf PInf = NaN"
| "js_div PInf NInf = NaN"
| "js_div NInf PInf = NaN"
| "js_div NInf NInf = NaN"
| "js_div PInf (Fin b) = (if b < 0 then NInf else PInf)"
| "js_div NInf (Fin b) = (if b < 0 then PInf else NInf)"
| "js_div (Fin a) PInf = Fin 0"
| "js_div (Fin a) NInf = Fin 0"
| "js_div (Fin a) (Fin b) =
     (if b = 0 then (if a = 0 then NaN else if 0 < a then PInf else NInf)
      else Fin (a / b))"

text \<open>\<open>a > b\<close>; every comparison with \<open>NaN\<close> is false.\<close>

fun js_gt :: "jsnum \<Rightarrow> jsnum \<Rightarrow> bool" where
  "js_gt NaN b = False"
| "js_gt a NaN = False"
| "js_gt PInf PInf = False"
| "js_gt PInf b = True"
| "js_gt NInf b = False"
| "js_gt (Fin a) PInf = False"
| "js_gt (Fin a) NInf = True"
| "js_gt (Fin a) (Fin b) = (b < a)"

text \<open>\<open>a >= b\<close>\<close>

definition js_ge :: "jsnum \<Rightarrow> jsnum \<Rightarrow> bool" where
  "js_ge a b = (a \<noteq> NaN \<and> b \<noteq> NaN \<and> \<not> js_gt b a)"

text \<open>Unary minus.\<close>

fun js_neg :: "jsnum \<Rightarrow> jsnum" where
  "js_neg NaN = NaN"
| "js_neg PInf = NInf"
| "js_neg NInf = PInf"
| "js_neg (Fin a) = Fin (- a)"

text \<open>The global \<open>isNaN\<close> on a number.\<close>

definition isNaN :: "jsnum \<Rightarrow> bool" where
  "isNaN x = (x = NaN)"

text \<open>\<open>Math.max(a, b)\<close>: \<open>NaN\<close> when an argument is \<open>NaN\<close>, the larger one otherwise.\<close>

definition Math_max :: "jsnum \<Rightarrow> jsnum \<Rightarrow> jsnum" where
  "Math_max a b = (if isNaN a \<or> isNaN b then NaN else if js_gt b a then b else a)"

text \<open>A number is falsy when it is zero or \<open>NaN\<close>; \<open>undefined\<close> (a missing property,
  \<open>None\<close>) is falsy too. \<open>x || d\<close> is \<open>d\<close> for a falsy \<open>x\<close>.\<close>

definition js_or :: "jsnum option \<Rightarrow> jsnum \<Rightarrow> jsnum" where
  "js_or x d = (case x of None \<Rightarrow> d | Some q \<Rightarrow> if q = NaN \<or> q = Fin 0 then d else q)"

text \<open>\<open>ToNumber\<close> of a property read: \<open>undefined\<close> becomes \<open>NaN\<close>.\<close>

definition ToNumber :: "jsnum option \<Rightarrow> jsnum" where
  "ToNumber x = (case x of None \<Rightarrow> NaN | Some q \<Rightarrow> q)"

section \<open>parseFloat\<close>

text \<open>
  \<open>parseFloat\<close> skips leading white space and reads the longest prefix of the rest that is
  a \<open>StrDecimalLiteral\<close>: an optional sign, then \<open>Infinity\<close> or decimal digits with an
  optional fraction and an optional exponent. With no such prefix the result is \<open>NaN\<close>.
  Strings are sequences of 8-bit characters here; the white space characters are the ones
  below 256. The value of a finite literal is its exact decimal value.
\<close>

definition isWhiteSpace :: "char \<Rightarrow> bool" where
  "isWhiteSpace c = ((of_char c :: nat) \<in> {9, 10, 11, 12, 13, 32, 160})"

definition isDecimalDigit :: "char \<Rightarrow> bool" where
  "isDecimalDigit c = (48 \<le> (of_char c :: nat) \<and> (of_char c :: nat) \<le> 57)"

definition digitValue :: "char \<Rightarrow> nat" where
  "digitValue c = of_char c - 48"

definition DecimalDigits_value :: "string \<Rightarrow> nat" where
  "DecimalDigits_value ds = foldl (\<lambda>acc c. 10 * acc + digitValue c) 0 ds"

definition pow10 :: "int \<Rightarrow> real" where
  "pow10 e = (if 0 \<le> e then 10 ^ nat e else 1 / 10 ^ nat (- e))"

text \<open>The exponent of the longest \<open>ExponentPart\<close> at the head of the string, 0 when there
  is none (\<open>e\<close> with no digit after it is not part of the literal).\<close>

definition ExponentPart :: "string \<Rightarrow> int" where
  "ExponentPart s =
     (if s \<noteq> [] \<and> (hd s = CHR ''e'' \<or> hd s = CHR ''E'') then
        (let t = tl s;
             neg = (t \<noteq> [] \<and> hd t = CHR ''-'');
             u = (if t \<noteq> [] \<and> (hd t = CHR ''+'' \<or> hd t = CHR ''-'') then tl t else t);
             ds = takeWhile isDecimalDigit u
         in if ds = [] then 0
            else if neg then - int (DecimalDigits_value ds)
            else int (DecimalDigits_value ds))
      else 0)"

definition StrUnsignedDecimalLiteral :: "string \<Rightarrow> jsnum" where
  "StrUnsignedDecimalLiteral s =
     (if take 8 s = ''Infinity'' then PInf
      else
        (let ip = takeWhile isDecimalDigit s;
             r1 = dropWhile isDecimalDigit s;
             dot = (r1 \<noteq> [] \<and> hd r1 = CHR ''.'');
             fp = (if dot then takeWhile isDecimalDigit (tl r1) else []);
             r2 = (if dot then dropWhile isDecimalDigit (tl r1) else r1)
         in if ip = [] \<and> fp = [] then NaN
            else Fin (real (DecimalDigits_value (ip @ fp)) / 10 ^ length fp
                      * pow10 (ExponentPart r2))))"

definition parseFloat :: "string \<Rightarrow> jsnum" where
  "parseFloat inputString =
     (let trimmed = dropWhile isWhiteSpace inputString in
      if trimmed \<noteq> [] \<and> hd trimmed = CHR ''-'' then js_neg (StrUnsignedDecimalLiteral (tl trimmed))
      else if trimmed \<noteq> [] \<and> hd trimmed = CHR ''+'' then StrUnsignedDecimalLiteral (tl trimmed)
      else StrUnsignedDecimalLiteral trimmed)"

section \<open>The component's data\<close>

text \<open>\<open>type Mode = 'mass' | 'molar'\<close>\<close>

datatype Mode = mass | molar

text \<open>\<open>interface ElementData\<close>; the field \<open>id\<close> is \<open>ident\<close> here.\<close>

record ElementData =
  ident :: string
  name :: string
  color :: string
  atomicMass :: jsnum
  bgColor :: string

definition ELEMENTS :: "ElementData list" where
  "ELEMENTS =
     [\<lparr>ident = ''C'', name = ''Carbon'', color = ''#1f2937'',
       atomicMass = Fin (12011 / 1000), bgColor = ''bg-gray-800''\<rparr>,
      \<lparr>ident = ''H'', name = ''Hydrogen'', color = ''#60a5fa'',
       atomicMass = Fin (1008 / 1000), bgColor = ''bg-blue-400''\<rparr>,
      \<lparr>ident = ''O'', name = ''Oxygen'', color = ''#ef4444'',
       atomicMass = Fin (15999 / 1000), bgColor = ''bg-red-500''\<rparr>,
      \<lparr>ident = ''N'', name = ''Nitrogen'', color = ''#f59e0b'',
       atomicMass = Fin (14007 / 1000), bgColor = ''bg-amber-500''\<rparr>]"

text \<open>
  The two \<open>useState\<close> cells of \<open>App\<close>. \<open>inputs\<close> is a \<open>Record<string, number>\<close> that is
  only ever read by key, so it is a map; a key that is not a property reads as \<open>None\<close>.
\<close>

record AppState =
  mode :: Mode
  inputs :: "string \<rightharpoonup> jsnum"

definition zeroInputs :: "string \<rightharpoonup> jsnum" where
  "zeroInputs = [''C'' \<mapsto> Fin 0, ''H'' \<mapsto> Fin 0, ''O'' \<mapsto> Fin 0, ''N'' \<mapsto> Fin 0]"

definition initialState :: AppState where
  "initialState = \<lparr>mode = mass, inputs = zeroInputs\<rparr>"

text \<open>
  The records built by \<open>forEach\<close> (\<open>masses\<close>, \<open>percs\<close>) are enumerated by
  \<open>Object.values\<close>, which follows the order in which the properties were created, so they
  are association lists: assigning to an existing key keeps its place, a new key goes
  last.
\<close>

fun record_set :: "(string \<times> 'a) list \<Rightarrow> string \<Rightarrow> 'a \<Rightarrow> (string \<times> 'a) list" where
  "record_set [] k v = [(k, v)]"
| "record_set ((k', v') # kvs) k v =
     (if k' = k then (k, v) # kvs else (k', v') # record_set kvs k v)"

definition record_get :: "(string \<times> 'a) list \<Rightarrow> string \<Rightarrow> 'a option" where
  "record_get kvs k = map_of kvs k"

definition Object_values :: "(string \<times> 'a) list \<Rightarrow> 'a list" where
  "Object_values kvs = map snd kvs"

section \<open>The operations\<close>

definition handleInputChange :: "string \<Rightarrow> string \<Rightarrow> AppState \<Rightarrow> AppState" where
  "handleInputChange k raw s =
     (let num = parseFloat raw in
      s\<lparr>inputs := (inputs s)(k \<mapsto> (if isNaN num then Fin 0 else Math_max (Fin 0) num))\<rparr>)"

definition resetInputs :: "AppState \<Rightarrow> AppState" where
  "resetInputs s = s\<lparr>inputs := zeroInputs\<rparr>"

definition setMode :: "Mode \<Rightarrow> AppState \<Rightarrow> AppState" where
  "setMode m s = s\<lparr>mode := m\<rparr>"

section \<open>The derived values\<close>

definition elementMasses :: "AppState \<Rightarrow> (string \<times> jsnum) list" where
  "elementMasses s =
     fold (\<lambda>el masses.
             (let val = js_or (inputs s (ident el)) (Fin 0) in
              record_set masses (ident el)
                (if mode s = mass then val else js_mul val (atomicMass el))))
          ELEMENTS []"

definition totalMass :: "AppState \<Rightarrow> jsnum" where
  "totalMass s = foldl (\<lambda>sum m. js_add sum m) (Fin 0) (Object_values (elementMasses s))"

definition percentages :: "AppState \<Rightarrow> (string \<times> jsnum) list" where
  "percentages s =
     fold (\<lambda>el percs.
             record_set percs (ident el)
               (if js_gt (totalMass s) (Fin 0)
                then js_mul (js_div (ToNumber (record_get (elementMasses s) (ident el)))
                                    (totalMass s)) (Fin 100)
                else Fin 0))
          ELEMENTS []"

text \<open>The objects \<open>{ name, value, color }\<close> handed to the pie chart.\<close>

record ChartEntry =
  entry_name :: string
  entry_value :: "jsnum option"
  entry_color :: string

definition chartData :: "AppState \<Rightarrow> ChartEntry list" where
  "chartData s =
     map (\<lambda>el. \<lparr>entry_name = name el,
                 entry_value = record_get (percentages s) (ident el),
                 entry_color = color el\<rparr>)
         (filter (\<lambda>el. js_gt (ToNumber (record_get (elementMasses s) (ident el))) (Fin 0))
                 ELEMENTS)"

section \<open>Sequences of user actions\<close>

text \<open>
  The three things a user can do: edit the input of a property (\<open>handleInputChange\<close>),
  press a mode button (\<open>setMode\<close>), press the clear button (\<open>resetInputs\<close>). \<open>run\<close>
  applies a sequence of them, first to last.
\<close>

datatype Action = InputChange string string | ModeClick Mode | ResetClick

fun act :: "Action \<Rightarrow> AppState \<Rightarrow> AppState" where
  "act (InputChange k raw) s = handleInputChange k raw s"
| "act (ModeClick m) s = setMode m s"
| "act ResetClick s = resetInputs s"

fun run :: "Action list \<Rightarrow> AppState \<Rightarrow> AppState" where
  "run [] s = s"
| "run (a # as) s = run as (act a s)"

section \<open>The derived state as the specification words it\<close>

text \<open>
  The stored quantity of an element, its contribution (the quantity by mass, the
  quantity times the atomic mass by molar mass), the total (the sum of the contributions
  in table order) and the percentage (contribution over total times 100 for a positive
  total, 0 otherwise).
\<close>

definition js_sum :: "jsnum list \<Rightarrow> jsnum" where
  "js_sum xs = foldl js_add (Fin 0) xs"

definition quantity :: "AppState \<Rightarrow> ElementData \<Rightarrow> jsnum" where
  "quantity s el = ToNumber (inputs s (ident el))"

definition spec_contribution :: "AppState \<Rightarrow> ElementData \<Rightarrow> jsnum" where
  "spec_contribution s el =
     (if mode s = mass then quantity s el else js_mul (quantity s el) (atomicMass el))"

definition spec_total :: "AppState \<Rightarrow> jsnum" where
  "spec_total s = js_sum (map (spec_contribution s) ELEMENTS)"

definition spec_percentage :: "AppState \<Rightarrow> ElementData \<Rightarrow> jsnum" where
  "spec_percentage s el =
     (if js_gt (spec_total s) (Fin 0)
      then js_mul (js_div (spec_contribution s el) (spec_total s)) (Fin 100)
      else Fin 0)"

text \<open>What the component computes for an element: the entries of \<open>elementMasses\<close> and
  \<open>percentages\<close> under its id, read as numbers.\<close>

definition mass_of :: "AppState \<Rightarrow> ElementData \<Rightarrow> jsnum" where
  "mass_of s el = ToNumber (record_get (elementMasses s) (ident el))"

definition percentage_of :: "AppState \<Rightarrow> ElementData \<Rightarrow> jsnum" where
  "percentage_of s el = ToNumber (record_get (percentages s) (ident el))"

text \<open>Conditions on the stored quantities of the four elements: each is stored and is a
  number; each is stored and \<open>>= 0\<close> (which \<open>Infinity\<close> is).\<close>

definition is_number :: "jsnum option \<Rightarrow> bool" where
  "is_number x = (case x of None \<Rightarrow> False | Some q \<Rightarrow> q \<noteq> NaN)"

definition is_nonneg :: "jsnum option \<Rightarrow> bool" where
  "is_nonneg x = (case x of None \<Rightarrow> False | Some q \<Rightarrow> js_ge q (Fin 0))"

definition stored_numbers :: "AppState \<Rightarrow> bool" where
  "stored_numbers s = list_all (\<lambda>el. is_number (inputs s (ident el))) ELEMENTS"

definition stored_nonneg :: "AppState \<Rightarrow> bool" where
  "stored_nonneg s = list_all (\<lambda>el. is_nonneg (inputs s (ident el))) ELEMENTS"

section \<open>Unfolding the derived values\<close>

lemma elementMasses_unfold:
  "elementMasses s =
     [(''C'', if mode s = mass then js_or (inputs s ''C'') (Fin 0)
              else js_mul (js_or (inputs s ''C'') (Fin 0)) (Fin (12011 / 1000))),
      (''H'', if mode s = mass then js_or (inputs s ''H'') (Fin 0)
              else js_mul (js_or (inputs s ''H'') (Fin 0)) (Fin (1008 / 1000))),
      (''O'', if mode s = mass then js_or (inputs s ''O'') (Fin 0)
              else js_mul (js_or (inputs s ''O'') (Fin 0)) (Fin (15999 / 1000))),
      (''N'', if mode s = mass then js_or (inputs s ''N'') (Fin 0)
              else js_mul (js_or (inputs s ''N'') (Fin 0)) (Fin (14007 / 1000)))]"
  by (simp add: elementMasses_def ELEMENTS_def)

lemma totalMass_unfold: "totalMass s = js_sum (map snd (elementMasses s))"
  by (simp add: totalMass_def js_sum_def Object_values_def)

lemma percentages_unfold:
  "percentages s =
     map (\<lambda>el. (ident el,
                 if js_gt (totalMass s) (Fin 0)
                 then js_mul (js_div (mass_of s el) (totalMass s)) (Fin 100)
                 else Fin 0))
         ELEMENTS"
  by (simp add: percentages_def ELEMENTS_def mass_of_def)

lemma js_or_number: "is_number x \<Longrightarrow> js_or x (Fin 0) = ToNumber x"
  by (auto simp: is_number_def js_or_def ToNumber_def split: option.splits)

lemmas parse_defs =
  parseFloat_def StrUnsignedDecimalLiteral_def isWhiteSpace_def isDecimalDigit_def
  digitValue_def DecimalDigits_value_def pow10_def ExponentPart_def

lemmas state_defs =
  handleInputChange_def resetInputs_def setMode_def initialState_def zeroInputs_def
  isNaN_def Math_max_def

lemmas derived_defs =
  elementMasses_unfold totalMass_unfold percentages_unfold mass_of_def percentage_of_def
  js_sum_def js_or_def record_get_def ToNumber_def ELEMENTS_def

section \<open>Editing a quantity\<close>

text \<open>What \<open>isNaN(num) ? 0 : Math.max(0, num)\<close> evaluates to.\<close>

lemma clamp_nonneg: "js_ge (if isNaN num then Fin 0 else Math_max (Fin 0) num) (Fin 0)"
  by (cases num) (simp_all add: isNaN_def Math_max_def js_ge_def)

lemma clamp_eq:
  "(if isNaN num then Fin 0 else Math_max (Fin 0) num) =
   (if num = NaN \<or> js_gt (Fin 0) num then Fin 0 else num)"
  by (cases num) (auto simp: isNaN_def Math_max_def)

text \<open>
  Claim C3: \<open>handleInputChange\<close> stores 0 under the id when the text does not parse as a
  number (\<open>parseFloat\<close> gives \<open>NaN\<close>) or parses to a negative number, and the parsed
  value itself otherwise, whatever its size; the texts \<open>-5\<close> and \<open>abc\<close> both store 0.
  The function is total: it has no error result.
\<close>

theorem handleInputChange_stores:
  "inputs (handleInputChange k raw s) k =
     Some (if parseFloat raw = NaN \<or> js_gt (Fin 0) (parseFloat raw) then Fin 0
           else parseFloat raw)
   \<and> inputs (handleInputChange k ''-5'' s) k = Some (Fin 0)
   \<and> inputs (handleInputChange k ''abc'' s) k = Some (Fin 0)"
proof -
  have "inputs (handleInputChange k raw s) k =
     Some (if parseFloat raw = NaN \<or> js_gt (Fin 0) (parseFloat raw) then Fin 0
           else parseFloat raw)"
    by (simp add: handleInputChange_def Let_def clamp_eq)
  moreover have "inputs (handleInputChange k ''-5'' s) k = Some (Fin 0)"
    by (simp add: state_defs parse_defs)
  moreover have "inputs (handleInputChange k ''abc'' s) k = Some (Fin 0)"
    by (simp add: state_defs parse_defs)
  ultimately show ?thesis by simp
qed

section \<open>The stored quantities stay non-negative\<close>

lemma act_keeps_nonneg:
  assumes "\<And>k q. inputs s k = Some q \<Longrightarrow> js_ge q (Fin 0)"
    and "inputs (act a s) k = Some q"
  shows "js_ge q (Fin 0)"
proof (cases a)
  case (InputChange k' raw)
  show ?thesis
  proof (cases "k = k'")
    case True
    with InputChange assms(2) have "q = (if isNaN (parseFloat raw) then Fin 0 else Math_max (Fin 0) (parseFloat raw))"
      by (simp add: handleInputChange_def Let_def)
    then show ?thesis by (simp only: clamp_nonneg)
  next
    case False
    with InputChange assms(2) have "inputs s k = Some q"
      by (simp add: handleInputChange_def Let_def)
    then show ?thesis by (rule assms(1))
  qed
next
  case (ModeClick m)
  with assms(2) have "inputs s k = Some q" by (simp add: setMode_def)
  then show ?thesis by (rule assms(1))
next
  case ResetClick
  with assms(2) have "zeroInputs k = Some q" by (simp add: resetInputs_def)
  then show ?thesis by (auto simp: zeroInputs_def js_ge_def split: if_splits)
qed

lemma run_keeps_nonneg:
  assumes "\<And>k q. inputs s k = Some q \<Longrightarrow> js_ge q (Fin 0)"
    and "inputs (run as s) k = Some q"
  shows "js_ge q (Fin 0)"
  using assms
proof (induction as arbitrary: s)
  case Nil
  then show ?case by simp
next
  case (Cons a as)
  show ?case
  proof (rule Cons.IH)
    show "inputs (run as (act a s)) k = Some q" using Cons.prems(2) by simp
  next
    fix k' q' assume "inputs (act a s) k' = Some q'"
    with Cons.prems(1) show "js_ge q' (Fin 0)" by (rule act_keeps_nonneg)
  qed
qed

lemma act_keeps_dom:
  assumes "inputs s k \<noteq> None" "k \<in> {''C'', ''H'', ''O'', ''N''}"
  shows "inputs (act a s) k \<noteq> None"
  using assms by (cases a) (auto simp: state_defs Let_def)

lemma run_keeps_dom:
  assumes "inputs s k \<noteq> None" "k \<in> {''C'', ''H'', ''O'', ''N''}"
  shows "inputs (run as s) k \<noteq> None"
  using assms(1)
proof (induction as arbitrary: s)
  case Nil
  then show ?case by simp
next
  case (Cons a as)
  from Cons.prems assms(2) have "inputs (act a s) k \<noteq> None" by (rule act_keeps_dom)
  then have "inputs (run as (act a s)) k \<noteq> None" by (rule Cons.IH)
  then show ?case by simp
qed

text \<open>
  Claim C6: in the initial state (the empty sequence) and after every sequence of edits,
  mode clicks and resets, each of the four elements has a stored quantity \<open>>= 0\<close>, and
  so has every other key of \<open>inputs\<close>.
\<close>

theorem quantities_never_negative:
  "stored_nonneg (run as initialState)
   \<and> (\<forall>k q. inputs (run as initialState) k = Some q \<longrightarrow> js_ge q (Fin 0))"
proof -
  have init: "\<And>k q. inputs initialState k = Some q \<Longrightarrow> js_ge q (Fin 0)"
    by (auto simp: initialState_def zeroInputs_def js_ge_def split: if_splits)
  then have all: "\<And>k q. inputs (run as initialState) k = Some q \<Longrightarrow> js_ge q (Fin 0)"
    by (rule run_keeps_nonneg)
  have "is_nonneg (inputs (run as initialState) k)" if "k \<in> {''C'', ''H'', ''O'', ''N''}" for k
  proof -
    have "inputs initialState k \<noteq> None"
      using that by (auto simp: initialState_def zeroInputs_def)
    then have "inputs (run as initialState) k \<noteq> None"
      using that by (rule run_keeps_dom)
    then obtain q where "inputs (run as initialState) k = Some q" by blast
    with all [of k q] show ?thesis by (simp add: is_nonneg_def)
  qed
  then have "stored_nonneg (run as initialState)"
    by (simp add: stored_nonneg_def ELEMENTS_def)
  with all show ?thesis by blast
qed

text \<open>A negative text, a text that is no number, a reset, then an edit to 7.\<close>

theorem quantities_never_negative_witness:
  "inputs (run [InputChange ''C'' ''-5'', ModeClick molar, InputChange ''H'' ''abc'',
                InputChange ''O'' ''2.5'', ResetClick, InputChange ''N'' ''7''] initialState) ''N''
     = Some (Fin 7)
   \<and> js_ge (Fin 7) (Fin 0)"
proof -
  let ?s = "run [InputChange ''C'' ''-5'', ModeClick molar, InputChange ''H'' ''abc'',
                InputChange ''O'' ''2.5'', ResetClick, InputChange ''N'' ''7''] initialState"
  have h: "inputs ?s ''N'' = Some (Fin 7)"
    by (simp add: state_defs parse_defs)
  from quantities_never_negative [of "[InputChange ''C'' ''-5'', ModeClick molar, InputChange ''H'' ''abc'',
                InputChange ''O'' ''2.5'', ResetClick, InputChange ''N'' ''7'']"]
  have "inputs ?s ''N'' = Some (Fin 7) \<longrightarrow> js_ge (Fin 7) (Fin 0)" by blast
  with h show ?thesis by simp
qed

section \<open>Reset, and what an edit and a mode click leave alone\<close>

text \<open>
  Claim C7: \<open>resetInputs\<close> keeps the mode and stores 0 for each of the four elements;
  after it \<open>totalMass\<close> is 0 and every percentage is 0, in either mode.
\<close>

theorem resetInputs_zero:
  "mode (resetInputs s) = mode s
   \<and> list_all (\<lambda>el. inputs (resetInputs s) (ident el) = Some (Fin 0)) ELEMENTS
   \<and> totalMass (resetInputs s) = Fin 0
   \<and> list_all (\<lambda>el. record_get (percentages (resetInputs s)) (ident el) = Some (Fin 0)) ELEMENTS"
proof -
  have m: "elementMasses (resetInputs s) = [(''C'', Fin 0), (''H'', Fin 0), (''O'', Fin 0), (''N'', Fin 0)]"
    by (cases "mode s") (simp_all add: elementMasses_unfold resetInputs_def zeroInputs_def js_or_def)
  have t: "totalMass (resetInputs s) = Fin 0"
    by (simp add: totalMass_unfold m js_sum_def)
  have "list_all (\<lambda>el. record_get (percentages (resetInputs s)) (ident el) = Some (Fin 0)) ELEMENTS"
    by (simp add: percentages_unfold t ELEMENTS_def record_get_def)
  moreover have "list_all (\<lambda>el. inputs (resetInputs s) (ident el) = Some (Fin 0)) ELEMENTS"
    by (simp add: resetInputs_def zeroInputs_def ELEMENTS_def)
  moreover have "mode (resetInputs s) = mode s"
    by (simp add: resetInputs_def)
  ultimately show ?thesis using t by simp
qed

text \<open>
  Claim C8: \<open>handleInputChange\<close> for one id leaves the stored quantity of every other
  key as it was, and leaves the mode as it was.
\<close>

theorem handleInputChange_frame:
  assumes "k' \<noteq> k"
  shows "inputs (handleInputChange k raw s) k' = inputs s k'
         \<and> mode (handleInputChange k raw s) = mode s"
  using assms by (simp add: handleInputChange_def Let_def)

theorem handleInputChange_frame_witness:
  "''H'' \<noteq> ''C''
   \<and> inputs (handleInputChange ''C'' ''7'' initialState) ''H'' = inputs initialState ''H''
   \<and> inputs initialState ''H'' = Some (Fin 0)
   \<and> mode (handleInputChange ''C'' ''7'' initialState) = mode initialState"
proof -
  have h: "''H'' \<noteq> ''C''" by simp
  from handleInputChange_frame [OF h, of "''7''" initialState] h show ?thesis
    by (simp add: initialState_def zeroInputs_def)
qed

text \<open>
  Claim C9: \<open>setMode\<close> replaces the mode and leaves \<open>inputs\<close> as it was. With one
  carbon stored, switching to molar changes \<open>elementMasses\<close> while \<open>inputs\<close> stays.
\<close>

theorem setMode_frame:
  "inputs (setMode m s) = inputs s \<and> mode (setMode m s) = m
   \<and> elementMasses (setMode molar (handleInputChange ''C'' ''1'' initialState))
       \<noteq> elementMasses (handleInputChange ''C'' ''1'' initialState)
   \<and> inputs (setMode molar (handleInputChange ''C'' ''1'' initialState))
       = inputs (handleInputChange ''C'' ''1'' initialState)"
  by (simp add: elementMasses_unfold js_or_def state_defs parse_defs)

section \<open>The derived values against the specification's formulas\<close>

lemma mass_of_spec:
  assumes "is_number (inputs s (ident el))" "el \<in> set ELEMENTS"
  shows "record_get (elementMasses s) (ident el) = Some (spec_contribution s el)"
  using assms
  by (auto simp: elementMasses_unfold record_get_def spec_contribution_def quantity_def
      js_or_number ELEMENTS_def)

lemma totalMass_spec:
  assumes "stored_numbers s"
  shows "totalMass s = spec_total s"
  using assms
  by (simp add: totalMass_unfold spec_total_def elementMasses_unfold stored_numbers_def
      ELEMENTS_def spec_contribution_def quantity_def js_or_number)

lemma percentages_get:
  assumes "el \<in> set ELEMENTS"
  shows "record_get (percentages s) (ident el) =
     Some (if js_gt (totalMass s) (Fin 0)
           then js_mul (js_div (mass_of s el) (totalMass s)) (Fin 100) else Fin 0)"
  using assms by (auto simp: percentages_unfold record_get_def ELEMENTS_def)

lemma percentage_spec:
  assumes "stored_numbers s" "el \<in> set ELEMENTS"
  shows "record_get (percentages s) (ident el) = Some (spec_percentage s el)"
proof -
  from assms have "is_number (inputs s (ident el))"
    by (simp add: stored_numbers_def list_all_iff)
  then have "mass_of s el = spec_contribution s el"
    using assms(2) by (simp add: mass_of_def mass_of_spec ToNumber_def)
  with assms show ?thesis
    by (simp add: percentages_get totalMass_spec spec_percentage_def)
qed

text \<open>
  Claim C4: when each of the four elements has a stored quantity that is a number, the
  entry of \<open>elementMasses\<close> for an element is its contribution (the quantity by mass,
  the quantity times the atomic mass by molar mass) and \<open>totalMass\<close> is the sum of the
  four contributions. With 12 for carbon and 4 for hydrogen by mass the total is 16 and
  the percentages of carbon and hydrogen are 75 and 25.
\<close>

theorem contributions_and_total:
  assumes "stored_numbers s"
  shows "list_all (\<lambda>el. record_get (elementMasses s) (ident el) = Some (spec_contribution s el))
           ELEMENTS
         \<and> totalMass s = spec_total s
         \<and> totalMass \<lparr>mode = mass, inputs = zeroInputs(''C'' \<mapsto> Fin 12, ''H'' \<mapsto> Fin 4)\<rparr> = Fin 16
         \<and> record_get (percentages \<lparr>mode = mass, inputs = zeroInputs(''C'' \<mapsto> Fin 12, ''H'' \<mapsto> Fin 4)\<rparr>) ''C''
             = Some (Fin 75)
         \<and> record_get (percentages \<lparr>mode = mass, inputs = zeroInputs(''C'' \<mapsto> Fin 12, ''H'' \<mapsto> Fin 4)\<rparr>) ''H''
             = Some (Fin 25)"
proof -
  have "list_all (\<lambda>el. record_get (elementMasses s) (ident el) = Some (spec_contribution s el))
           ELEMENTS"
    unfolding list_all_iff
  proof
    fix el assume el: "el \<in> set ELEMENTS"
    with assms have "is_number (inputs s (ident el))"
      by (simp add: stored_numbers_def list_all_iff)
    then show "record_get (elementMasses s) (ident el) = Some (spec_contribution s el)"
      using el by (rule mass_of_spec)
  qed
  moreover from assms have "totalMass s = spec_total s" by (rule totalMass_spec)
  moreover have "totalMass \<lparr>mode = mass, inputs = zeroInputs(''C'' \<mapsto> Fin 12, ''H'' \<mapsto> Fin 4)\<rparr> = Fin 16"
    by (simp add: derived_defs zeroInputs_def)
  moreover have "record_get (percentages \<lparr>mode = mass, inputs = zeroInputs(''C'' \<mapsto> Fin 12, ''H'' \<mapsto> Fin 4)\<rparr>) ''C''
             = Some (Fin 75)"
    by (simp add: derived_defs zeroInputs_def)
  moreover have "record_get (percentages \<lparr>mode = mass, inputs = zeroInputs(''C'' \<mapsto> Fin 12, ''H'' \<mapsto> Fin 4)\<rparr>) ''H''
             = Some (Fin 25)"
    by (simp add: derived_defs zeroInputs_def)
  ultimately show ?thesis by simp
qed

theorem contributions_and_total_witness:
  "stored_numbers (handleInputChange ''O'' ''2'' (handleInputChange ''C'' ''1'' (setMode molar initialState)))
   \<and> totalMass (handleInputChange ''O'' ''2'' (handleInputChange ''C'' ''1'' (setMode molar initialState)))
       = spec_total (handleInputChange ''O'' ''2'' (handleInputChange ''C'' ''1'' (setMode molar initialState)))
   \<and> spec_total (handleInputChange ''O'' ''2'' (handleInputChange ''C'' ''1'' (setMode molar initialState)))
       = Fin (44009 / 1000)"
proof -
  let ?s = "handleInputChange ''O'' ''2'' (handleInputChange ''C'' ''1'' (setMode molar initialState))"
  have h: "stored_numbers ?s"
    by (simp add: stored_numbers_def is_number_def ELEMENTS_def state_defs parse_defs)
  have v: "spec_total ?s = Fin (44009 / 1000)"
    by (simp add: spec_total_def spec_contribution_def quantity_def js_sum_def ToNumber_def
        ELEMENTS_def state_defs parse_defs)
  from contributions_and_total [OF h] h v show ?thesis by simp
qed

subsection \<open>A zero total of non-negative masses\<close>

lemma js_ge_zero_iff: "js_ge q (Fin 0) \<longleftrightarrow> q = PInf \<or> (\<exists>a. q = Fin a \<and> 0 \<le> a)"
  by (cases q) (auto simp: js_ge_def)

lemma js_add_nonneg:
  assumes "js_ge a (Fin 0)" "js_ge b (Fin 0)"
  shows "js_ge (js_add a b) (Fin 0)"
  using assms by (auto simp: js_ge_zero_iff)

lemma js_add_zero:
  assumes "js_ge a (Fin 0)" "js_ge b (Fin 0)" "js_add a b = Fin 0"
  shows "a = Fin 0 \<and> b = Fin 0"
  using assms by (auto simp: js_ge_zero_iff)

lemma js_mul_nonneg:
  assumes "js_ge a (Fin 0)" "0 < m"
  shows "js_ge (js_mul a (Fin m)) (Fin 0)"
  using assms by (auto simp: js_ge_zero_iff)

lemma js_or_nonneg:
  assumes "is_nonneg x"
  shows "js_ge (js_or x (Fin 0)) (Fin 0)"
  using assms by (auto simp: is_nonneg_def js_or_def js_ge_def split: option.splits)

lemma masses_nonneg:
  assumes "stored_nonneg s"
  obtains w x y z where
    "elementMasses s = [(''C'', w), (''H'', x), (''O'', y), (''N'', z)]"
    "js_ge w (Fin 0)" "js_ge x (Fin 0)" "js_ge y (Fin 0)" "js_ge z (Fin 0)"
proof -
  from assms have q: "is_nonneg (inputs s ''C'')" "is_nonneg (inputs s ''H'')"
    "is_nonneg (inputs s ''O'')" "is_nonneg (inputs s ''N'')"
    by (simp_all add: stored_nonneg_def ELEMENTS_def)
  show thesis
  proof (rule that [OF elementMasses_unfold])
    show "js_ge (if mode s = mass then js_or (inputs s ''C'') (Fin 0)
              else js_mul (js_or (inputs s ''C'') (Fin 0)) (Fin (12011 / 1000))) (Fin 0)"
      using q(1) by (simp add: js_or_nonneg js_mul_nonneg)
    show "js_ge (if mode s = mass then js_or (inputs s ''H'') (Fin 0)
              else js_mul (js_or (inputs s ''H'') (Fin 0)) (Fin (1008 / 1000))) (Fin 0)"
      using q(2) by (simp add: js_or_nonneg js_mul_nonneg)
    show "js_ge (if mode s = mass then js_or (inputs s ''O'') (Fin 0)
              else js_mul (js_or (inputs s ''O'') (Fin 0)) (Fin (15999 / 1000))) (Fin 0)"
      using q(3) by (simp add: js_or_nonneg js_mul_nonneg)
    show "js_ge (if mode s = mass then js_or (inputs s ''N'') (Fin 0)
              else js_mul (js_or (inputs s ''N'') (Fin 0)) (Fin (14007 / 1000))) (Fin 0)"
      using q(4) by (simp add: js_or_nonneg js_mul_nonneg)
  qed
qed

lemma zero_total_zero_masses:
  assumes "stored_nonneg s" "totalMass s = Fin 0"
  shows "elementMasses s = [(''C'', Fin 0), (''H'', Fin 0), (''O'', Fin 0), (''N'', Fin 0)]"
proof -
  from assms(1) obtain w x y z where
    m: "elementMasses s = [(''C'', w), (''H'', x), (''O'', y), (''N'', z)]"
    and nn: "js_ge w (Fin 0)" "js_ge x (Fin 0)" "js_ge y (Fin 0)" "js_ge z (Fin 0)"
    by (rule masses_nonneg)
  from assms(2) have t: "js_add (js_add (js_add (js_add (Fin 0) w) x) y) z = Fin 0"
    by (simp add: totalMass_unfold m js_sum_def)
  have z0: "js_ge (Fin 0) (Fin 0)" by (simp add: js_ge_def)
  have n1: "js_ge (js_add (Fin 0) w) (Fin 0)" using z0 nn(1) by (rule js_add_nonneg)
  have n2: "js_ge (js_add (js_add (Fin 0) w) x) (Fin 0)" using n1 nn(2) by (rule js_add_nonneg)
  have n3: "js_ge (js_add (js_add (js_add (Fin 0) w) x) y) (Fin 0)"
    using n2 nn(3) by (rule js_add_nonneg)
  from js_add_zero [OF n3 nn(4) t] have e3: "js_add (js_add (js_add (Fin 0) w) x) y = Fin 0"
    and "z = Fin 0" by simp_all
  moreover from js_add_zero [OF n2 nn(3) e3] have e2: "js_add (js_add (Fin 0) w) x = Fin 0"
    and "y = Fin 0" by simp_all
  moreover from js_add_zero [OF n1 nn(2) e2] have e1: "js_add (Fin 0) w = Fin 0"
    and "x = Fin 0" by simp_all
  moreover from js_add_zero [OF z0 nn(1) e1] have "w = Fin 0" by simp
  ultimately show ?thesis using m by simp
qed

lemma stored_nonneg_numbers: "stored_nonneg s \<Longrightarrow> stored_numbers s"
  by (auto simp: stored_nonneg_def stored_numbers_def is_nonneg_def is_number_def js_ge_def
      list_all_iff split: option.splits)

text \<open>
  Claim C5: for stored quantities \<open>>= 0\<close>, \<open>chartData\<close> is the list of the name, the
  percentage and the colour of exactly the elements whose contribution is positive, in
  the order C, H, O, N of \<open>ELEMENTS\<close>, and it is empty when \<open>totalMass\<close> is 0.
\<close>

theorem chartData_slices:
  assumes "stored_nonneg s"
  shows "chartData s =
           map (\<lambda>el. \<lparr>entry_name = name el, entry_value = Some (spec_percentage s el),
                       entry_color = color el\<rparr>)
               (filter (\<lambda>el. js_gt (spec_contribution s el) (Fin 0)) ELEMENTS)
         \<and> map ident ELEMENTS = [''C'', ''H'', ''O'', ''N'']
         \<and> (totalMass s = Fin 0 \<longrightarrow> chartData s = [])"
proof -
  from assms have num: "stored_numbers s" by (rule stored_nonneg_numbers)
  have c: "ToNumber (record_get (elementMasses s) (ident el)) = spec_contribution s el"
    if "el \<in> set ELEMENTS" for el
  proof -
    from num that have "is_number (inputs s (ident el))"
      by (simp add: stored_numbers_def list_all_iff)
    then show ?thesis using that by (simp add: mass_of_spec ToNumber_def)
  qed
  have f: "filter (\<lambda>el. js_gt (ToNumber (record_get (elementMasses s) (ident el))) (Fin 0)) ELEMENTS
           = filter (\<lambda>el. js_gt (spec_contribution s el) (Fin 0)) ELEMENTS"
    by (rule filter_cong) (simp_all add: c)
  have "chartData s =
           map (\<lambda>el. \<lparr>entry_name = name el, entry_value = Some (spec_percentage s el),
                       entry_color = color el\<rparr>)
               (filter (\<lambda>el. js_gt (spec_contribution s el) (Fin 0)) ELEMENTS)"
    unfolding chartData_def f
    by (rule map_cong) (simp_all add: percentage_spec [OF num])
  moreover have "map ident ELEMENTS = [''C'', ''H'', ''O'', ''N'']"
    by (simp add: ELEMENTS_def)
  moreover have "chartData s = []" if "totalMass s = Fin 0"
    by (simp add: chartData_def zero_total_zero_masses [OF assms that] record_get_def
        ToNumber_def ELEMENTS_def)
  ultimately show ?thesis by simp
qed

theorem chartData_slices_witness:
  "stored_nonneg (handleInputChange ''H'' ''4'' (handleInputChange ''C'' ''12'' initialState))
   \<and> chartData (handleInputChange ''H'' ''4'' (handleInputChange ''C'' ''12'' initialState)) =
       [\<lparr>entry_name = ''Carbon'', entry_value = Some (Fin 75), entry_color = ''#1f2937''\<rparr>,
        \<lparr>entry_name = ''Hydrogen'', entry_value = Some (Fin 25), entry_color = ''#60a5fa''\<rparr>]
   \<and> stored_nonneg (resetInputs (handleInputChange ''C'' ''12'' initialState))
   \<and> totalMass (resetInputs (handleInputChange ''C'' ''12'' initialState)) = Fin 0
   \<and> chartData (resetInputs (handleInputChange ''C'' ''12'' initialState)) = []"
proof -
  let ?s = "handleInputChange ''H'' ''4'' (handleInputChange ''C'' ''12'' initialState)"
  let ?z = "resetInputs (handleInputChange ''C'' ''12'' initialState)"
  have h: "stored_nonneg ?s"
    by (simp add: stored_nonneg_def is_nonneg_def js_ge_def ELEMENTS_def state_defs parse_defs)
  have hz: "stored_nonneg ?z"
    by (simp add: stored_nonneg_def is_nonneg_def js_ge_def ELEMENTS_def state_defs)
  have tz: "totalMass ?z = Fin 0"
    by (simp add: derived_defs state_defs)
  have v: "map (\<lambda>el. \<lparr>entry_name = name el, entry_value = Some (spec_percentage ?s el),
                       entry_color = color el\<rparr>)
               (filter (\<lambda>el. js_gt (spec_contribution ?s el) (Fin 0)) ELEMENTS) =
       [\<lparr>entry_name = ''Carbon'', entry_value = Some (Fin 75), entry_color = ''#1f2937''\<rparr>,
        \<lparr>entry_name = ''Hydrogen'', entry_value = Some (Fin 25), entry_color = ''#60a5fa''\<rparr>]"
    by (simp add: spec_percentage_def spec_total_def spec_contribution_def quantity_def
        js_sum_def ToNumber_def ELEMENTS_def state_defs parse_defs)
  from chartData_slices [OF h] v have a: "chartData ?s =
       [\<lparr>entry_name = ''Carbon'', entry_value = Some (Fin 75), entry_color = ''#1f2937''\<rparr>,
        \<lparr>entry_name = ''Hydrogen'', entry_value = Some (Fin 25), entry_color = ''#60a5fa''\<rparr>]"
    by (simp only:)
  from chartData_slices [OF hz] tz have e: "chartData ?z = []" by blast
  from h a hz tz e show ?thesis by blast
qed

section \<open>Derived values: never negative, not always numbers\<close>

text \<open>
  For stored quantities \<open>>= 0\<close>, which is every state the operations produce, the
  masses and the total are \<open>>= 0\<close>, a percentage is \<open>>= 0\<close> or \<open>NaN\<close>, and a total of
  0 gives the percentage 0.
\<close>

lemma percentage_not_negative:
  assumes "js_ge m (Fin 0)" "js_ge t (Fin 0)"
  shows "(if js_gt t (Fin 0) then js_mul (js_div m t) (Fin 100) else Fin 0) = NaN
         \<or> js_ge (if js_gt t (Fin 0) then js_mul (js_div m t) (Fin 100) else Fin 0) (Fin 0)"
  using assms by (cases m; cases t) (auto simp: js_ge_def divide_less_0_iff)

lemma derived_not_negative:
  assumes "stored_nonneg s" "el \<in> set ELEMENTS"
  shows "js_ge (mass_of s el) (Fin 0)"
    and "js_ge (totalMass s) (Fin 0)"
    and "percentage_of s el = NaN \<or> js_ge (percentage_of s el) (Fin 0)"
    and "totalMass s = Fin 0 \<Longrightarrow> percentage_of s el = Fin 0"
proof -
  from assms(1) obtain w x y z where
    m: "elementMasses s = [(''C'', w), (''H'', x), (''O'', y), (''N'', z)]"
    and nn: "js_ge w (Fin 0)" "js_ge x (Fin 0)" "js_ge y (Fin 0)" "js_ge z (Fin 0)"
    by (rule masses_nonneg)
  from assms(2) nn show mass: "js_ge (mass_of s el) (Fin 0)"
    by (auto simp: mass_of_def m ELEMENTS_def record_get_def ToNumber_def)
  have z0: "js_ge (Fin 0) (Fin 0)" by (simp add: js_ge_def)
  have "totalMass s = js_add (js_add (js_add (js_add (Fin 0) w) x) y) z"
    by (simp add: totalMass_unfold m js_sum_def)
  with z0 nn show total: "js_ge (totalMass s) (Fin 0)"
    by (simp add: js_add_nonneg)
  from assms(2) have p: "percentage_of s el =
      (if js_gt (totalMass s) (Fin 0)
       then js_mul (js_div (mass_of s el) (totalMass s)) (Fin 100) else Fin 0)"
    by (simp add: percentage_of_def percentages_get ToNumber_def)
  from percentage_not_negative [OF mass total]
  show "percentage_of s el = NaN \<or> js_ge (percentage_of s el) (Fin 0)"
    by (simp only: p)
  show "percentage_of s el = Fin 0" if "totalMass s = Fin 0"
    using that by (simp add: p)
qed

text \<open>
  Claim C2 says that no derived value is ever \<open>NaN\<close>. From the initial state, the edit
  of carbon to the text \<open>Infinity\<close> stores \<open>Infinity\<close>; the total is then \<open>Infinity\<close>,
  which is positive, and the percentage of carbon is \<open>Infinity / Infinity * 100\<close>, that
  is \<open>NaN\<close>.
\<close>

theorem infinity_gives_NaN_percentage:
  "inputs (run [InputChange ''C'' ''Infinity''] initialState) ''C'' = Some PInf
   \<and> totalMass (run [InputChange ''C'' ''Infinity''] initialState) = PInf
   \<and> record_get (percentages (run [InputChange ''C'' ''Infinity''] initialState)) ''C'' = Some NaN"
  by (simp add: derived_defs state_defs parse_defs)

text \<open>
  Claim C1 says that the four percentages add up to 100 whenever every stored quantity
  is \<open>>= 0\<close> and the total is positive. After the same edit every stored quantity is
  \<open>>= 0\<close> and the total is positive, and the four percentages are \<open>NaN\<close>, 0, 0 and 0:
  their sum is \<open>NaN\<close>, not 100.
\<close>

theorem infinite_quantity_sum_is_NaN:
  "stored_nonneg (run [InputChange ''C'' ''Infinity''] initialState)
   \<and> js_gt (totalMass (run [InputChange ''C'' ''Infinity''] initialState)) (Fin 0)
   \<and> map (percentage_of (run [InputChange ''C'' ''Infinity''] initialState)) ELEMENTS
       = [NaN, Fin 0, Fin 0, Fin 0]
   \<and> js_sum (map (percentage_of (run [InputChange ''C'' ''Infinity''] initialState)) ELEMENTS)
       = NaN
   \<and> js_sum (map (percentage_of (run [InputChange ''C'' ''Infinity''] initialState)) ELEMENTS)
       \<noteq> Fin 100"
  by (simp add: stored_nonneg_def is_nonneg_def js_ge_def derived_defs state_defs parse_defs)

text \<open>
  Claim C10 says that every percentage is between 0 and 100 whenever every stored
  quantity is \<open>>= 0\<close>. After the same edit, in either mode, every stored quantity is
  \<open>>= 0\<close> and the percentage of carbon is \<open>NaN\<close>, which is neither \<open>>= 0\<close> nor
  \<open><= 100\<close>.
\<close>

theorem infinite_quantity_percentage_out_of_bounds:
  "stored_nonneg (run [InputChange ''C'' ''Infinity'', ModeClick m] initialState)
   \<and> map (percentage_of (run [InputChange ''C'' ''Infinity'', ModeClick m] initialState)) ELEMENTS
       = [NaN, Fin 0, Fin 0, Fin 0]
   \<and> \<not> js_ge NaN (Fin 0) \<and> \<not> js_ge (Fin 100) NaN
   \<and> \<not> list_all
         (\<lambda>el. js_ge (percentage_of
                         (run [InputChange ''C'' ''Infinity'', ModeClick m] initialState) el) (Fin 0)
               \<and> js_ge (Fin 100)
                    (percentage_of
                       (run [InputChange ''C'' ''Infinity'', ModeClick m] initialState) el))
         ELEMENTS"
  by (cases m)
    (simp_all add: stored_nonneg_def is_nonneg_def js_ge_def derived_defs state_defs parse_defs)

end
